theory Spec2Isabelle
  imports Complex_Main
begin

section \<open>The voice-conversion pipeline of docker/rvc/inference.py\<close>

text \<open>
  The script decodes an audio file at 16000 Hz, hands the samples to a loaded network,
  optionally shifts the pitch and writes the result. Everything it does beyond moving
  values around happens in library calls (librosa, torch, soundfile) and in the methods
  of the loaded network. Those are parameters of the model: an environment gives the
  outcome of every library call, a network object carries the outcome of the operations
  the script performs on it, and every call may raise.

  Not modelled: \<^verbatim>\<open>torch.no_grad()\<close> (gradients play no part here, and leaving the
  scope swallows no exception), the parameter \<^verbatim>\<open>f0_method\<close> of \<^verbatim>\<open>convert\<close> (never
  read), a failure of \<^verbatim>\<open>print\<close>, and effects of the network's own code other than
  the value it returns or the exception it raises.
\<close>

subsection \<open>Exceptions\<close>

text \<open>
  The script observes two things of an exception: whether \<^verbatim>\<open>except Exception\<close>
  catches it, and its text (\<^verbatim>\<open>str(e)\<close>). \<open>Exception\<close> stands for an instance of
  class Exception or of a subclass (RuntimeError, TypeError, ...), \<open>BaseException\<close>
  for an instance of a class outside Exception (SystemExit, KeyboardInterrupt,
  GeneratorExit); the string is the text.
\<close>

datatype pyexc = Exception string | BaseException string

fun is_Exception :: "pyexc \<Rightarrow> bool" where
  \<comment> \<open>\<^verbatim>\<open>isinstance(e, Exception)\<close>\<close>
  "is_Exception (Exception msg) = True"
| "is_Exception (BaseException msg) = False"

fun str_of :: "pyexc \<Rightarrow> string" where
  \<comment> \<open>\<^verbatim>\<open>str(e)\<close>\<close>
  "str_of (Exception msg) = msg"
| "str_of (BaseException msg) = msg"

definition sys_exit_1 :: pyexc where
  \<comment> \<open>what \<^verbatim>\<open>sys.exit(1)\<close> raises: SystemExit(1)\<close>
  "sys_exit_1 = BaseException ''1''"

subsection \<open>Samples, tensors and Python objects\<close>

text \<open>
  A sample sequence is the flat sequence of values of a numpy array; the values are
  never computed with here, only moved, so they are reals.
\<close>

type_synonym samples = "real list"

record tensor =
  t_shape :: "nat list"
  t_data :: samples
  t_device :: string

definition unsqueeze0 :: "tensor \<Rightarrow> tensor" where
  \<comment> \<open>\<^verbatim>\<open>t.unsqueeze(0)\<close>: a leading dimension of size 1.\<close>
  "unsqueeze0 t = t\<lparr>t_shape := 1 # t_shape t\<rparr>"

text \<open>
  What a call of \<^verbatim>\<open>infer\<close> returns is an arbitrary object; the script only applies
  \<^verbatim>\<open>.squeeze().cpu().numpy()\<close> to it, which raises or yields an array.
\<close>

datatype infer_output = Output "pyexc + samples"

text \<open>
  The lookup of attribute \<^verbatim>\<open>infer\<close>: absent (AttributeError), a property that raises
  another exception, or a value, given by what calling it on a tensor does.
\<close>

datatype attr = No_attr | Attr_raises pyexc | Attr "tensor \<Rightarrow> pyexc + infer_output"

text \<open>
  The object \<^verbatim>\<open>torch.load\<close> returns is a dict, or any other object. Of the latter the
  model keeps the three protocols the script uses:
  \<^item> membership (\<^verbatim>\<open>key in obj\<close>): \<open>None\<close> when the type defines none of
    \<^verbatim>\<open>__contains__\<close>, \<^verbatim>\<open>__iter__\<close>, \<^verbatim>\<open>__getitem__\<close>, as a
    \<^verbatim>\<open>torch.nn.Module\<close> does not;
  \<^item> subscription (\<^verbatim>\<open>obj[key]\<close>): \<open>None\<close> when the type has no \<^verbatim>\<open>__getitem__\<close>;
  \<^item> the attribute \<^verbatim>\<open>infer\<close>.
\<close>

datatype pyobj =
    Dict "(string \<times> pyobj) list"
  | Object "(string \<Rightarrow> pyexc + bool) option"
           "(string \<Rightarrow> pyexc + pyobj) option"
           attr

fun py_in :: "string \<Rightarrow> pyobj \<Rightarrow> pyexc + bool" where
  \<comment> \<open>\<^verbatim>\<open>key in obj\<close>\<close>
  "py_in key (Dict kvs) = Inr (map_of kvs key \<noteq> None)"
| "py_in key (Object None gi a) =
     Inl (Exception ''TypeError: argument of type is not iterable'')"
| "py_in key (Object (Some f) gi a) = f key"

fun py_getitem :: "pyobj \<Rightarrow> string \<Rightarrow> pyexc + pyobj" where
  \<comment> \<open>\<^verbatim>\<open>obj[key]\<close>\<close>
  "py_getitem (Dict kvs) key =
     (case map_of kvs key of
        None \<Rightarrow> Inl (Exception (''KeyError: '' @ key))
      | Some v \<Rightarrow> Inr v)"
| "py_getitem (Object c None a) key =
     Inl (Exception ''TypeError: object is not subscriptable'')"
| "py_getitem (Object c (Some g) a) key = g key"

fun infer_of :: "pyobj \<Rightarrow> attr" where
  \<comment> \<open>a dict has no attribute \<^verbatim>\<open>infer\<close>\<close>
  "infer_of (Dict kvs) = No_attr"
| "infer_of (Object c gi a) = a"

definition hasattr_infer :: "pyobj \<Rightarrow> pyexc + bool" where
  \<comment> \<open>\<^verbatim>\<open>hasattr(obj, 'infer')\<close>: only AttributeError means False, the rest propagates.\<close>
  "hasattr_infer obj =
     (case infer_of obj of
        No_attr \<Rightarrow> Inr False
      | Attr_raises e \<Rightarrow> Inl e
      | Attr f \<Rightarrow> Inr True)"

definition call_infer :: "pyobj \<Rightarrow> tensor \<Rightarrow> pyexc + infer_output" where
  \<comment> \<open>\<^verbatim>\<open>obj.infer(t)\<close>\<close>
  "call_infer obj t =
     (case infer_of obj of
        No_attr \<Rightarrow> Inl (Exception ''AttributeError: infer'')
      | Attr_raises e \<Rightarrow> Inl e
      | Attr f \<Rightarrow> f t)"

fun squeeze_cpu_numpy :: "infer_output \<Rightarrow> pyexc + samples" where
  \<comment> \<open>\<^verbatim>\<open>output.squeeze().cpu().numpy()\<close>\<close>
  "squeeze_cpu_numpy (Output r) = r"

subsection \<open>The libraries\<close>

text \<open>
  The outcome of each library call the script makes. Sample rates are naturals, the
  pitch shift an integer number of semitones.
\<close>

record env =
  librosa_load :: "string \<Rightarrow> pyexc + samples \<times> nat"
  librosa_resample :: "samples \<Rightarrow> nat \<Rightarrow> nat \<Rightarrow> pyexc + samples"
  librosa_pitch_shift :: "samples \<Rightarrow> nat \<Rightarrow> int \<Rightarrow> pyexc + samples"
  sf_write :: "string \<Rightarrow> samples \<Rightarrow> nat \<Rightarrow> pyexc option"
  torch_load :: "string \<Rightarrow> string \<Rightarrow> pyexc + pyobj"
  tensor_to :: "samples \<Rightarrow> string \<Rightarrow> pyexc option"
  path_exists :: "string \<Rightarrow> bool"

subsection \<open>Effects\<close>

text \<open>
  A run produces, in order, the lines it prints, the library calls it makes and the
  files it writes. A function of the script is modelled by the pair of the effects it
  produces and its outcome: the exception it raises (\<open>Inl\<close>) or the value it returns.
\<close>

datatype effect =
    Print string
  | Librosa_load string
  | Librosa_resample nat nat
  | Torch_load string string
  | Tensor_to string
  | Net_infer
  | Pitch_shift nat int
  | Sf_write string nat
  | File_written string samples nat

type_synonym 'a action = "effect list \<times> (pyexc + 'a)"

definition ret :: "'a \<Rightarrow> 'a action" where
  "ret x = ([], Inr x)"

definition emit :: "effect \<Rightarrow> unit action" where
  "emit ev = ([ev], Inr ())"

definition outcome :: "effect \<Rightarrow> pyexc + 'a \<Rightarrow> 'a action" where
  \<comment> \<open>a library call: the call is recorded, its outcome is the library's\<close>
  "outcome ev r = ([ev], r)"

definition seq :: "'a action \<Rightarrow> ('a \<Rightarrow> 'b action) \<Rightarrow> 'b action" where
  \<comment> \<open>one statement after another: an exception skips what follows\<close>
  "seq m f =
     (case m of
        (w, Inl e) \<Rightarrow> (w, Inl e)
      | (w, Inr x) \<Rightarrow> (w @ fst (f x), snd (f x)))"

definition try_except_Exception :: "'a action \<Rightarrow> (pyexc \<Rightarrow> 'a action) \<Rightarrow> 'a action" where
  \<comment> \<open>\<^verbatim>\<open>try: body except Exception as e: handler\<close>\<close>
  "try_except_Exception body handler =
     (case body of
        (w, Inl e) \<Rightarrow>
          if is_Exception e then (w @ fst (handler e), snd (handler e)) else (w, Inl e)
      | (w, Inr x) \<Rightarrow> (w, Inr x))"

subsection \<open>load_audio and save_audio\<close>

definition load_audio :: "env \<Rightarrow> string \<Rightarrow> nat \<Rightarrow> samples action" where
  "load_audio env path sr =
     seq (outcome (Librosa_load path) (librosa_load env path)) (\<lambda>(audio, orig_sr).
       if orig_sr \<noteq> sr
       then outcome (Librosa_resample orig_sr sr) (librosa_resample env audio orig_sr sr)
       else ret audio)"

definition save_audio :: "env \<Rightarrow> string \<Rightarrow> samples \<Rightarrow> nat \<Rightarrow> unit action" where
  \<comment> \<open>\<^verbatim>\<open>sf.write(path, audio, sr)\<close>: the file exists once the call has returned\<close>
  "save_audio env path audio sr =
     (case sf_write env path audio sr of
        Some e \<Rightarrow> ([Sf_write path sr], Inl e)
      | None \<Rightarrow> ([Sf_write path sr, File_written path audio sr], Inr ()))"

subsection \<open>RVCInference\<close>

record RVCInference =
  device :: string
  model_path :: string
  index_path :: "string option"
  model :: pyobj
  net_g :: pyobj

definition extract_network :: "pyobj \<Rightarrow> pyexc + pyobj" where
  \<comment> \<open>lines 41-44\<close>
  "extract_network m =
     (case py_in ''model'' m of
        Inl e \<Rightarrow> Inl e
      | Inr True \<Rightarrow> py_getitem m ''model''
      | Inr False \<Rightarrow> Inr m)"

definition init :: "env \<Rightarrow> string \<Rightarrow> string option \<Rightarrow> string \<Rightarrow> RVCInference action" where
  \<comment> \<open>\<^verbatim>\<open>RVCInference.__init__\<close>\<close>
  "init env mpath ipath dev =
     seq (emit (Print (''Loading model: '' @ mpath))) (\<lambda>_.
     seq (outcome (Torch_load mpath dev) (torch_load env mpath dev)) (\<lambda>m.
     seq ([], extract_network m) (\<lambda>g.
     seq (emit (Print ''Model loaded successfully'')) (\<lambda>_.
     ret \<lparr>device = dev, model_path = mpath, index_path = ipath, model = m, net_g = g\<rparr>))))"

definition as_tensor :: "samples \<Rightarrow> string \<Rightarrow> tensor" where
  \<comment> \<open>the one-dimensional tensor of the samples, bound to a device\<close>
  "as_tensor audio dev = \<lparr>t_shape = [length audio], t_data = audio, t_device = dev\<rparr>"

definition to_tensor :: "env \<Rightarrow> samples \<Rightarrow> string \<Rightarrow> tensor action" where
  \<comment> \<open>line 58: \<^verbatim>\<open>torch.from_numpy(audio).float().to(self.device)\<close>\<close>
  "to_tensor env audio dev =
     outcome (Tensor_to dev)
       (case tensor_to env audio dev of
          Some e \<Rightarrow> Inl e
        | None \<Rightarrow> Inr (as_tensor audio dev))"

definition run_infer :: "pyobj \<Rightarrow> tensor \<Rightarrow> samples action" where
  \<comment> \<open>lines 64-65\<close>
  "run_infer net t =
     seq (outcome Net_infer (call_infer net (unsqueeze0 t))) (\<lambda>output.
       ([], squeeze_cpu_numpy output))"

definition passthrough_warning :: string where
  "passthrough_warning = ''Warning: Model doesn't have infer method, using passthrough''"

definition apply_model :: "pyobj \<Rightarrow> samples \<Rightarrow> tensor \<Rightarrow> samples action" where
  \<comment> \<open>lines 61-72: the try statement\<close>
  "apply_model net audio audio_tensor =
     try_except_Exception
       (seq ([], hasattr_infer net) (\<lambda>has.
          if has then run_infer net audio_tensor
          else seq (emit (Print passthrough_warning)) (\<lambda>_. ret audio)))
       (\<lambda>e. seq (emit (Print (''Conversion error: '' @ str_of e))) (\<lambda>_. ret audio))"

definition convert_block :: "env \<Rightarrow> RVCInference \<Rightarrow> samples \<Rightarrow> samples action" where
  \<comment> \<open>lines 57-72: tensor binding, then the try statement\<close>
  "convert_block env self audio =
     seq (to_tensor env audio (device self)) (\<lambda>audio_tensor.
       apply_model (net_g self) audio audio_tensor)"

definition pitch_stage :: "env \<Rightarrow> samples \<Rightarrow> int \<Rightarrow> samples action" where
  \<comment> \<open>lines 75-78\<close>
  "pitch_stage env output_audio pitch_shift =
     (if pitch_shift \<noteq> 0
      then outcome (Pitch_shift 16000 pitch_shift)
             (librosa_pitch_shift env output_audio 16000 pitch_shift)
      else ret output_audio)"

definition save_stage :: "env \<Rightarrow> string \<Rightarrow> samples \<Rightarrow> string action" where
  \<comment> \<open>lines 80-84\<close>
  "save_stage env output_path output_audio =
     seq (save_audio env output_path output_audio 16000) (\<lambda>_.
     seq (emit (Print (''Saved: '' @ output_path))) (\<lambda>_.
     ret output_path))"

definition shift_and_save :: "env \<Rightarrow> string \<Rightarrow> samples \<Rightarrow> int \<Rightarrow> string action" where
  \<comment> \<open>lines 74-84: what follows the model-transformation block\<close>
  "shift_and_save env output_path output_audio pitch_shift =
     seq (pitch_stage env output_audio pitch_shift) (\<lambda>output_audio.
       save_stage env output_path output_audio)"

definition convert :: "env \<Rightarrow> RVCInference \<Rightarrow> string \<Rightarrow> string \<Rightarrow> int \<Rightarrow> string action" where
  \<comment> \<open>\<^verbatim>\<open>RVCInference.convert\<close>, lines 48-84\<close>
  "convert env self input_path output_path pitch_shift =
     seq (emit (Print (''Converting: '' @ input_path @ '' -> '' @ output_path))) (\<lambda>_.
     seq (load_audio env input_path 16000) (\<lambda>audio.
     seq (convert_block env self audio) (\<lambda>output_audio.
       shift_and_save env output_path output_audio pitch_shift)))"

subsection \<open>main\<close>

record args =
  arg_model :: string
  arg_index :: "string option"
  arg_input :: string
  arg_output :: string
  arg_pitch :: int
  arg_device :: string

definition main :: "env \<Rightarrow> args \<Rightarrow> unit action" where
  \<comment> \<open>lines 97-109, after argument parsing\<close>
  "main env a =
     (if \<not> path_exists env (arg_model a)
      then seq (emit (Print (''Error: Model not found: '' @ arg_model a))) (\<lambda>_.
             ([], Inl sys_exit_1))
      else if \<not> path_exists env (arg_input a)
      then seq (emit (Print (''Error: Input file not found: '' @ arg_input a))) (\<lambda>_.
             ([], Inl sys_exit_1))
      else
        seq (init env (arg_model a) (arg_index a) (arg_device a)) (\<lambda>rvc.
        seq (convert env rvc (arg_input a) (arg_output a) (arg_pitch a)) (\<lambda>_.
        emit (Print ''Done!''))))"

subsection \<open>Reading the effects of a run\<close>

fun file_of :: "effect \<Rightarrow> (string \<times> samples \<times> nat) option" where
  "file_of (File_written path audio sr) = Some (path, audio, sr)"
| "file_of ev = None"

definition written :: "effect list \<Rightarrow> (string \<times> samples \<times> nat) list" where
  \<comment> \<open>the files a run has written: path, samples, rate\<close>
  "written evs = List.map_filter file_of evs"

fun is_encode :: "effect \<Rightarrow> bool" where
  "is_encode (Sf_write path sr) = True"
| "is_encode (File_written path audio sr) = True"
| "is_encode ev = False"

fun is_pitch_shift :: "effect \<Rightarrow> bool" where
  "is_pitch_shift (Pitch_shift sr n) = True"
| "is_pitch_shift ev = False"



subsection \<open>Example runs\<close>

definition bare_module :: pyobj where
  \<comment> \<open>a network object of no container type, with a working \<^verbatim>\<open>infer\<close>\<close>
  "bare_module = Object None None (Attr (\<lambda>t. Inr (Output (Inr (map (\<lambda>x. 2 * x) (t_data t))))))"

definition failing_net :: pyobj where
  \<comment> \<open>a network whose \<^verbatim>\<open>infer\<close> raises\<close>
  "failing_net = Object None None (Attr (\<lambda>t. Inl (Exception ''shape mismatch'')))"

text \<open>
  A concrete environment: two audio files at 16000 Hz (one of them empty), one at
  44100 Hz; a pitch shifter that rejects the empty sequence; a directory that does not
  exist; a second device that runs out of memory; two model files, one a dict with the
  network under ''model'', one the network itself.
\<close>

definition demo_env :: env where
  "demo_env = \<lparr>
     librosa_load = (\<lambda>path.
       if path = ''in.wav'' then Inr ([1/2, -1/4], 16000)
       else if path = ''in44.wav'' then Inr ([1/2, 1/4, -1/4], 44100)
       else if path = ''empty.wav'' then Inr ([], 16000)
       else Inl (Exception ''No such file'')),
     librosa_resample = (\<lambda>audio orig_sr target_sr. Inr (take 1 audio)),
     librosa_pitch_shift = (\<lambda>audio sr n_steps.
       if audio = [] then Inl (Exception ''ParameterError: empty signal'')
       else Inr (rev audio)),
     sf_write = (\<lambda>path audio sr.
       if path = ''/nodir/out.wav'' then Some (Exception ''Error opening /nodir/out.wav'')
       else None),
     torch_load = (\<lambda>path dev.
       if path = ''model.pth'' then Inr (Dict [(''model'', failing_net)])
       else if path = ''net.pth'' then Inr bare_module
       else Inl (Exception ''No such file'')),
     tensor_to = (\<lambda>audio dev.
       if dev = ''cpu'' then None else Some (Exception ''CUDA out of memory'')),
     path_exists = (\<lambda>path.
       path \<in> set [''model.pth'', ''net.pth'', ''in.wav'', ''in44.wav'', ''empty.wav''])\<rparr>"

definition rvc_of :: "pyobj \<Rightarrow> string \<Rightarrow> RVCInference" where
  "rvc_of net dev =
     \<lparr>device = dev, model_path = ''model.pth'', index_path = None,
      model = Dict [(''model'', net)], net_g = net\<rparr>"

section \<open>How runs compose\<close>

lemma seq_Inr: "seq (w, Inr x) f = (w @ fst (f x), snd (f x))"
  by (simp add: seq_def)

lemma seq_Inl: "seq (w, Inl e) f = (w, Inl e)"
  by (simp add: seq_def)


lemma snd_seq:
  "snd (seq m f) = (case snd m of Inl e \<Rightarrow> Inl e | Inr x \<Rightarrow> snd (f x))"
  by (cases m) (auto simp: seq_def split: sum.splits)

text \<open>Which effects each stage can produce.\<close>

lemma load_audio_effects:
  "fst (load_audio env path sr) = [Librosa_load path]
   \<or> (\<exists>r. fst (load_audio env path sr) = [Librosa_load path, Librosa_resample r sr])"
  by (auto simp: load_audio_def seq_def outcome_def ret_def split: sum.splits prod.splits)

lemma run_infer_effects: "fst (run_infer net t) = [Net_infer]"
  by (auto simp: run_infer_def seq_def outcome_def split: sum.splits)

lemma apply_model_effects:
  "set (fst (apply_model net audio t)) \<subseteq> insert Net_infer (range Print)"
proof -
  have "fst (run_infer net t) = [Net_infer]" by (rule run_infer_effects)
  then show ?thesis
    by (cases "run_infer net t")
       (auto simp: apply_model_def try_except_Exception_def seq_def emit_def ret_def
             split: sum.splits prod.splits if_splits)
qed

lemma convert_block_effects:
  "set (fst (convert_block env self audio))
     \<subseteq> insert (Tensor_to (device self)) (insert Net_infer (range Print))"
  using apply_model_effects [of "net_g self" audio "as_tensor audio (device self)"]
  by (auto simp: convert_block_def to_tensor_def outcome_def seq_def split: option.splits)

lemma pitch_stage_effects:
  "set (fst (pitch_stage env audio p)) \<subseteq> {Pitch_shift 16000 p}"
  by (simp add: pitch_stage_def outcome_def ret_def)

lemma save_audio_effects:
  "set (fst (save_audio env path audio sr)) \<subseteq> {Sf_write path sr, File_written path audio sr}"
  by (simp add: save_audio_def split: option.splits)

lemma written_append: "written (xs @ ys) = written xs @ written ys"
  by (simp add: written_def List.map_filter_def)

lemma written_Nil: "written [] = []"
  by (simp add: written_def List.map_filter_def)

lemma written_Cons:
  "written (ev # evs) =
     (case file_of ev of None \<Rightarrow> written evs | Some f \<Rightarrow> f # written evs)"
  by (simp add: written_def List.map_filter_def split: option.splits)

lemma written_load_audio: "written (fst (load_audio env path sr)) = []"
  using load_audio_effects [of env path sr]
  by (auto simp: written_Cons written_Nil)

lemma written_none: "set evs \<subseteq> S \<Longrightarrow> \<forall>ev\<in>S. file_of ev = None \<Longrightarrow> written evs = []"
  by (induction evs) (auto simp: written_Cons written_Nil)

lemma written_convert_block: "written (fst (convert_block env self audio)) = []"
  by (rule written_none [OF convert_block_effects]) auto

lemma filter_none: "set evs \<subseteq> S \<Longrightarrow> \<forall>ev\<in>S. \<not> P ev \<Longrightarrow> filter P evs = []"
  by (induction evs) auto

text \<open>Unfolding the definitions evaluates a concrete run.\<close>

lemmas run_defs =
  convert_def shift_and_save_def save_stage_def convert_block_def to_tensor_def apply_model_def
  try_except_Exception_def run_infer_def pitch_stage_def save_audio_def load_audio_def
  hasattr_infer_def call_infer_def seq_def outcome_def emit_def ret_def
  as_tensor_def unsqueeze0_def

lemmas demo_defs = demo_env_def rvc_of_def failing_net_def bare_module_def

lemma device_rvc_of: "device (rvc_of net dev) = dev"
  by (simp add: rvc_of_def)

lemma shift_and_save_ok:
  assumes "snd (pitch_stage env audio p) = Inr shifted"
      and "sf_write env outp shifted 16000 = None"
  shows "snd (shift_and_save env outp audio p) = Inr outp"
    and "written (fst (shift_and_save env outp audio p)) = [(outp, shifted, 16000)]"
  using assms pitch_stage_effects [of env audio p]
  by (cases "pitch_stage env audio p";
      auto simp: shift_and_save_def save_stage_def save_audio_def seq_def emit_def ret_def
                 written_Cons written_Nil written_append pitch_stage_def outcome_def
           split: if_splits)+

lemma convert_after_block:
  assumes "load_audio env i 16000 = (w, Inr audio)"
      and "convert_block env self audio = (w', Inr out)"
  shows "convert env self i outp p =
           (Print (''Converting: '' @ i @ '' -> '' @ outp) # w @ w'
              @ fst (shift_and_save env outp out p),
            snd (shift_and_save env outp out p))"
  using assms by (simp add: convert_def seq_def emit_def)

section \<open>Extraction of the network\<close>

text \<open>A dict is handled as intended: the value under ''model'' if there is one, else the dict.\<close>

lemma extract_network_Dict:
  "extract_network (Dict kvs) =
     (case map_of kvs ''model'' of None \<Rightarrow> Inr (Dict kvs) | Some v \<Rightarrow> Inr v)"
  by (simp add: extract_network_def split: option.splits)

text \<open>
  C2, at a bare network: the claim is that extraction never fails and returns a bare
  network object unchanged. The membership test of line 41 is evaluated first, and on an
  object that is no container (a \<^verbatim>\<open>torch.nn.Module\<close> saved whole) it raises TypeError:
  the else branch of line 44, written for this shape, is never reached.
\<close>

theorem C2_bare_network_raises:
  "extract_network bare_module
     = Inl (Exception ''TypeError: argument of type is not iterable'')"
  by (simp add: extract_network_def bare_module_def)

section \<open>The model-transformation block\<close>



text \<open>
  C1, as stated, fails: tensor binding (line 58) stands before the try statement, so an
  error it raises leaves the block. Here the device runs out of memory and the block
  ends in that exception, returning no samples.
\<close>

theorem C1_tensor_binding_error_propagates:
  "snd (convert_block demo_env (rvc_of bare_module ''cuda'') [1/2, -1/4])
     = Inl (Exception ''CUDA out of memory'')"
  by (simp add: convert_block_def to_tensor_def outcome_def seq_def demo_env_def rvc_of_def)

lemma apply_model_outcome:
  "case snd (apply_model net audio t) of
     Inr out \<Rightarrow> out = audio \<or> snd (run_infer net t) = Inr out
   | Inl e \<Rightarrow> \<not> is_Exception e"
  by (cases "run_infer net t")
     (auto simp: apply_model_def try_except_Exception_def seq_def emit_def ret_def
           split: sum.splits prod.splits if_splits)

lemma convert_block_bound:
  "tensor_to env audio (device self) = None \<Longrightarrow>
   convert_block env self audio =
     (Tensor_to (device self) # fst (apply_model (net_g self) audio (as_tensor audio (device self))),
      snd (apply_model (net_g self) audio (as_tensor audio (device self))))"
  by (simp add: convert_block_def to_tensor_def outcome_def seq_def)

text \<open>
  C1, amended: for every network, every sample sequence and every execution target on
  which tensor binding succeeds, the block never propagates an error of class Exception:
  whatever such error occurs during capability probing, inference or output extraction,
  the block completes and yields either the samples the network produced or the input
  samples unchanged. What can still leave the block is an exception outside class
  Exception (KeyboardInterrupt, SystemExit), which \<^verbatim>\<open>except Exception\<close> does not catch.
\<close>

theorem C1_try_catches_every_Exception:
  assumes "tensor_to env audio (device self) = None"
  shows "case snd (convert_block env self audio) of
           Inr out \<Rightarrow> out = audio
             \<or> snd (run_infer (net_g self) (as_tensor audio (device self))) = Inr out
         | Inl e \<Rightarrow> \<not> is_Exception e"
  using apply_model_outcome [where net = "net_g self" and audio = audio
                                 and t = "as_tensor audio (device self)"]
  by (simp add: convert_block_bound [OF assms])

theorem C1_try_catches_every_Exception_witness:
  "tensor_to demo_env [1/2, -1/4] (device (rvc_of failing_net ''cpu'')) = None
   \<and> snd (convert_block demo_env (rvc_of failing_net ''cpu'') [1/2, -1/4]) = Inr [1/2, -1/4]"
proof -
  have h: "tensor_to demo_env [1/2, -1/4] (device (rvc_of failing_net ''cpu'')) = None"
    by (simp add: demo_env_def rvc_of_def)
  have r: "snd (run_infer (net_g (rvc_of failing_net ''cpu''))
                 (as_tensor [1/2, -1/4] (device (rvc_of failing_net ''cpu''))))
             = Inl (Exception ''shape mismatch'')"
    by (simp add: run_infer_def call_infer_def seq_def outcome_def rvc_of_def failing_net_def)
  have "\<exists>out. snd (convert_block demo_env (rvc_of failing_net ''cpu'') [1/2, -1/4]) = Inr out"
    by (simp add: convert_block_def to_tensor_def demo_env_def apply_model_def
                  try_except_Exception_def hasattr_infer_def call_infer_def run_infer_def
                  seq_def outcome_def emit_def ret_def rvc_of_def failing_net_def)
  then show ?thesis
    using h r C1_try_catches_every_Exception [OF h]
    by auto
qed

text \<open>
  C3, as stated, fails: after the inference error has been caught, the stages that follow
  can still abort the run. In the first run the pitch shifter rejects the empty input,
  in the second the output directory does not exist; neither run writes a file.
\<close>

theorem C3_later_stage_error_counterexample:
  "convert demo_env (rvc_of failing_net ''cpu'') ''empty.wav'' ''out.wav'' 2
     = ([Print ''Converting: empty.wav -> out.wav'', Librosa_load ''empty.wav'',
         Tensor_to ''cpu'', Net_infer, Print ''Conversion error: shape mismatch'',
         Pitch_shift 16000 2],
        Inl (Exception ''ParameterError: empty signal''))
   \<and> convert demo_env (rvc_of failing_net ''cpu'') ''in.wav'' ''/nodir/out.wav'' 0
     = ([Print ''Converting: in.wav -> /nodir/out.wav'', Librosa_load ''in.wav'',
         Tensor_to ''cpu'', Net_infer, Print ''Conversion error: shape mismatch'',
         Sf_write ''/nodir/out.wav'' 16000],
        Inl (Exception ''Error opening /nodir/out.wav''))"
  by (simp add: run_defs demo_defs)

text \<open>
  C3, amended: for every network whose inference operation raises an error of class
  Exception on the input, the block catches it, returns exactly the input samples and
  prints the conversion-failure line; the run then continues with pitch shift and
  encoding on those samples, and whenever these two stages do not themselves raise it
  ends with the output file written at 16000 Hz and the output path returned.
\<close>

theorem C3_infer_error_passthrough:
  assumes load: "load_audio env input_path 16000 = (w, Inr audio)"
      and bind: "tensor_to env audio (device self) = None"
      and has: "hasattr_infer (net_g self) = Inr True"
      and raises: "call_infer (net_g self) (unsqueeze0 (as_tensor audio (device self))) = Inl e"
      and err: "is_Exception e"
  shows "convert_block env self audio
           = ([Tensor_to (device self), Net_infer, Print (''Conversion error: '' @ str_of e)],
              Inr audio)
         \<and> convert env self input_path output_path pitch_shift
           = (Print (''Converting: '' @ input_path @ '' -> '' @ output_path) # w
                @ [Tensor_to (device self), Net_infer, Print (''Conversion error: '' @ str_of e)]
                @ fst (shift_and_save env output_path audio pitch_shift),
              snd (shift_and_save env output_path audio pitch_shift))
         \<and> (snd (pitch_stage env audio pitch_shift) = Inr shifted
              \<and> sf_write env output_path shifted 16000 = None
            \<longrightarrow> snd (convert env self input_path output_path pitch_shift) = Inr output_path
              \<and> written (fst (convert env self input_path output_path pitch_shift))
                  = [(output_path, shifted, 16000)])"
proof -
  have blk: "convert_block env self audio
           = ([Tensor_to (device self), Net_infer, Print (''Conversion error: '' @ str_of e)],
              Inr audio)"
    using has raises err
    by (simp add: convert_block_bound [OF bind] apply_model_def try_except_Exception_def
                  run_infer_def seq_def outcome_def emit_def ret_def)
  have cv: "convert env self input_path output_path pitch_shift
           = (Print (''Converting: '' @ input_path @ '' -> '' @ output_path) # w
                @ [Tensor_to (device self), Net_infer, Print (''Conversion error: '' @ str_of e)]
                @ fst (shift_and_save env output_path audio pitch_shift),
              snd (shift_and_save env output_path audio pitch_shift))"
    by (rule convert_after_block [OF load blk])
  have w: "written w = []"
    using written_load_audio [of env input_path 16000] load by simp
  have "snd (convert env self input_path output_path pitch_shift) = Inr output_path
        \<and> written (fst (convert env self input_path output_path pitch_shift))
            = [(output_path, shifted, 16000)]"
    if "snd (pitch_stage env audio pitch_shift) = Inr shifted"
       "sf_write env output_path shifted 16000 = None"
    using shift_and_save_ok [OF that] w
    by (simp add: cv written_Cons written_append written_Nil)
  with blk cv show ?thesis by blast
qed

theorem C3_infer_error_passthrough_witness:
  "load_audio demo_env ''in.wav'' 16000 = ([Librosa_load ''in.wav''], Inr [1/2, -1/4])
   \<and> tensor_to demo_env [1/2, -1/4] (device (rvc_of failing_net ''cpu'')) = None
   \<and> hasattr_infer (net_g (rvc_of failing_net ''cpu'')) = Inr True
   \<and> call_infer (net_g (rvc_of failing_net ''cpu''))
        (unsqueeze0 (as_tensor [1/2, -1/4] (device (rvc_of failing_net ''cpu''))))
       = Inl (Exception ''shape mismatch'')
   \<and> is_Exception (Exception ''shape mismatch'')
   \<and> snd (pitch_stage demo_env [1/2, -1/4] 3) = Inr [-1/4, 1/2]
   \<and> sf_write demo_env ''out.wav'' [-1/4, 1/2] 16000 = None
   \<and> convert_block demo_env (rvc_of failing_net ''cpu'') [1/2, -1/4]
       = ([Tensor_to ''cpu'', Net_infer, Print ''Conversion error: shape mismatch''],
          Inr [1/2, -1/4])
   \<and> snd (convert demo_env (rvc_of failing_net ''cpu'') ''in.wav'' ''out.wav'' 3) = Inr ''out.wav''
   \<and> written (fst (convert demo_env (rvc_of failing_net ''cpu'') ''in.wav'' ''out.wav'' 3))
       = [(''out.wav'', [-1/4, 1/2], 16000)]"
proof -
  have load: "load_audio demo_env ''in.wav'' 16000 = ([Librosa_load ''in.wav''], Inr [1/2, -1/4])"
    by (simp add: load_audio_def seq_def outcome_def ret_def demo_env_def)
  have bind: "tensor_to demo_env [1/2, -1/4] (device (rvc_of failing_net ''cpu'')) = None"
    by (simp add: demo_defs)
  have has: "hasattr_infer (net_g (rvc_of failing_net ''cpu'')) = Inr True"
    by (simp add: hasattr_infer_def demo_defs)
  have raises: "call_infer (net_g (rvc_of failing_net ''cpu''))
        (unsqueeze0 (as_tensor [1/2, -1/4] (device (rvc_of failing_net ''cpu''))))
       = Inl (Exception ''shape mismatch'')"
    by (simp add: call_infer_def demo_defs)
  have err: "is_Exception (Exception ''shape mismatch'')"
    by simp
  have shift: "snd (pitch_stage demo_env [1/2, -1/4] 3) = Inr [-1/4, 1/2]"
    by (simp add: pitch_stage_def outcome_def demo_env_def)
  have enc: "sf_write demo_env ''out.wav'' [-1/4, 1/2] 16000 = None"
    by (simp add: demo_env_def)
  note t = C3_infer_error_passthrough [OF load bind has raises err,
        where output_path = "''out.wav''" and pitch_shift = 3 and shifted = "[-1/4, 1/2]",
        unfolded device_rvc_of str_of.simps append.simps]
  from t have blk: "convert_block demo_env (rvc_of failing_net ''cpu'') [1/2, -1/4]
       = ([Tensor_to ''cpu'', Net_infer, Print ''Conversion error: shape mismatch''],
          Inr [1/2, -1/4])"
    by blast
  from t shift enc
  have fin: "snd (convert demo_env (rvc_of failing_net ''cpu'') ''in.wav'' ''out.wav'' 3) = Inr ''out.wav''
   \<and> written (fst (convert demo_env (rvc_of failing_net ''cpu'') ''in.wav'' ''out.wav'' 3))
       = [(''out.wav'', [-1/4, 1/2], 16000)]"
    by blast
  show ?thesis
    using load bind has raises err shift enc blk fin by blast
qed

section \<open>Decoding\<close>

text \<open>
  C6: for every readable file (the decoder returns samples \<open>y\<close> at the native rate
  \<open>r\<close>) and every target rate \<open>R\<close>: when \<open>r = R\<close>, load_audio returns the
  decoded samples unchanged, and calls no resampler; otherwise what it returns is what
  the resampler returns for the target rate \<open>R\<close>. Either way the samples it returns
  are at rate \<open>R\<close>: decoded at that rate, or resampled to it. (The resampler is the
  library's; were it to raise, \<^verbatim>\<open>load_audio\<close> would raise the same error.)
\<close>

theorem C6_load_audio_at_rate:
  assumes "librosa_load env path = Inr (y, r)"
  shows "load_audio env path R =
           (if r = R then ([Librosa_load path], Inr y)
            else ([Librosa_load path, Librosa_resample r R], librosa_resample env y r R))"
  using assms by (simp add: load_audio_def seq_def outcome_def ret_def)

theorem C6_load_audio_at_rate_witness:
  "librosa_load demo_env ''in.wav'' = Inr ([1/2, -1/4], 16000)
   \<and> load_audio demo_env ''in.wav'' 16000 = ([Librosa_load ''in.wav''], Inr [1/2, -1/4])
   \<and> librosa_load demo_env ''in44.wav'' = Inr ([1/2, 1/4, -1/4], 44100)
   \<and> load_audio demo_env ''in44.wav'' 16000
       = ([Librosa_load ''in44.wav'', Librosa_resample 44100 16000], Inr [1/2])"
proof -
  have h1: "librosa_load demo_env ''in.wav'' = Inr ([1/2, -1/4], 16000)"
    by (simp add: demo_env_def)
  have h2: "librosa_load demo_env ''in44.wav'' = Inr ([1/2, 1/4, -1/4], 44100)"
    by (simp add: demo_env_def)
  have r: "librosa_resample demo_env [1/2, 1/4, -1/4] 44100 16000 = Inr [1/2]"
    by (simp add: demo_env_def)
  show ?thesis
    using h1 h2 r C6_load_audio_at_rate [OF h1, of 16000] C6_load_audio_at_rate [OF h2, of 16000]
    by simp
qed

section \<open>Pitch shift\<close>

text \<open>
  C7: with 0 semitones the pitch-shift stage returns exactly the samples it was given,
  for every sample sequence, and makes no library call: nothing is resampled.
\<close>

theorem C7_pitch_shift_zero_identity:
  "pitch_stage env samples 0 = ([], Inr samples)"
  by (simp add: pitch_stage_def ret_def)

text \<open>
  C5: in every run in which decoding and the model-transformation block complete, the
  pitch shift is nonzero and the pitch shifter raises, \<^verbatim>\<open>convert\<close> ends in that
  exception right after the pitch-shift call: no encode call is made and no file is
  written.
\<close>

theorem C5_pitch_shift_error_aborts:
  assumes load: "load_audio env input_path 16000 = (w, Inr audio)"
      and blk: "convert_block env self audio = (w', Inr output_audio)"
      and nz: "pitch_shift \<noteq> 0"
      and raises: "librosa_pitch_shift env output_audio 16000 pitch_shift = Inl e"
  shows "convert env self input_path output_path pitch_shift
           = (Print (''Converting: '' @ input_path @ '' -> '' @ output_path) # w @ w'
                @ [Pitch_shift 16000 pitch_shift],
              Inl e)
         \<and> filter is_encode (fst (convert env self input_path output_path pitch_shift)) = []
         \<and> written (fst (convert env self input_path output_path pitch_shift)) = []"
proof -
  have sh: "shift_and_save env output_path output_audio pitch_shift
              = ([Pitch_shift 16000 pitch_shift], Inl e)"
    using nz raises by (simp add: shift_and_save_def pitch_stage_def outcome_def seq_def)
  have cv: "convert env self input_path output_path pitch_shift
           = (Print (''Converting: '' @ input_path @ '' -> '' @ output_path) # w @ w'
                @ [Pitch_shift 16000 pitch_shift],
              Inl e)"
    using convert_after_block [OF load blk, of output_path pitch_shift] by (simp add: sh)
  have w: "filter is_encode w = []" "written w = []"
    using load_audio_effects [of env input_path 16000] load
    by (auto simp: written_Cons written_Nil)
  have sub: "set w' \<subseteq> insert (Tensor_to (device self)) (insert Net_infer (range Print))"
    using convert_block_effects [of env self audio] blk by simp
  have w'1: "filter is_encode w' = []"
    by (rule filter_none [OF sub]) auto
  have w'2: "written w' = []"
    by (rule written_none [OF sub]) auto
  show ?thesis
    using w w'1 w'2 by (simp add: cv written_Cons written_append written_Nil)
qed

theorem C5_pitch_shift_error_aborts_witness:
  "load_audio demo_env ''empty.wav'' 16000 = ([Librosa_load ''empty.wav''], Inr [])
   \<and> convert_block demo_env (rvc_of (Dict []) ''cpu'') []
       = ([Tensor_to ''cpu'', Print passthrough_warning], Inr [])
   \<and> (2::int) \<noteq> 0
   \<and> librosa_pitch_shift demo_env [] 16000 2 = Inl (Exception ''ParameterError: empty signal'')
   \<and> convert demo_env (rvc_of (Dict []) ''cpu'') ''empty.wav'' ''out.wav'' 2
       = ([Print ''Converting: empty.wav -> out.wav'', Librosa_load ''empty.wav'',
           Tensor_to ''cpu'', Print passthrough_warning, Pitch_shift 16000 2],
          Inl (Exception ''ParameterError: empty signal''))
   \<and> filter is_encode (fst (convert demo_env (rvc_of (Dict []) ''cpu'') ''empty.wav'' ''out.wav'' 2)) = []
   \<and> written (fst (convert demo_env (rvc_of (Dict []) ''cpu'') ''empty.wav'' ''out.wav'' 2)) = []"
proof -
  have load: "load_audio demo_env ''empty.wav'' 16000 = ([Librosa_load ''empty.wav''], Inr [])"
    by (simp add: load_audio_def seq_def outcome_def ret_def demo_env_def)
  have blk: "convert_block demo_env (rvc_of (Dict []) ''cpu'') []
       = ([Tensor_to ''cpu'', Print passthrough_warning], Inr [])"
    by (simp add: run_defs demo_defs)
  have nz: "(2::int) \<noteq> 0" by simp
  have raises: "librosa_pitch_shift demo_env [] 16000 2
                  = Inl (Exception ''ParameterError: empty signal'')"
    by (simp add: demo_env_def)
  note t = C5_pitch_shift_error_aborts [OF load blk nz raises, of "''out.wav''",
        unfolded append.simps]
  show ?thesis
    using load blk nz raises t by blast
qed

lemma shift_and_save_zero:
  "shift_and_save env outp audio 0 = save_stage env outp audio"
  by (simp add: shift_and_save_def pitch_stage_def ret_def seq_def)

lemma save_stage_outcome:
  "save_stage env outp audio =
     (case sf_write env outp audio 16000 of
        None \<Rightarrow> ([Sf_write outp 16000, File_written outp audio 16000, Print (''Saved: '' @ outp)],
                 Inr outp)
      | Some e \<Rightarrow> ([Sf_write outp 16000], Inl e))"
  by (simp add: save_stage_def save_audio_def seq_def emit_def ret_def split: option.splits)

text \<open>
  C10, as stated, fails: with pitch shift 0 and an empty conversion output the run reaches
  the encode call, but that call can raise, and then no file is written. Here the output
  directory does not exist.
\<close>

theorem C10_encode_error_counterexample:
  "load_audio demo_env ''empty.wav'' 16000 = ([Librosa_load ''empty.wav''], Inr [])
   \<and> convert_block demo_env (rvc_of (Dict []) ''cpu'') []
       = ([Tensor_to ''cpu'', Print passthrough_warning], Inr [])
   \<and> convert demo_env (rvc_of (Dict []) ''cpu'') ''empty.wav'' ''/nodir/out.wav'' 0
       = ([Print ''Converting: empty.wav -> /nodir/out.wav'', Librosa_load ''empty.wav'',
           Tensor_to ''cpu'', Print passthrough_warning, Sf_write ''/nodir/out.wav'' 16000],
          Inl (Exception ''Error opening /nodir/out.wav''))
   \<and> written (fst (convert demo_env (rvc_of (Dict []) ''cpu'') ''empty.wav'' ''/nodir/out.wav'' 0))
       = []"
  by (simp add: run_defs demo_defs written_def List.map_filter_def)

text \<open>
  C10, amended: when the pitch shift is 0 and the conversion output is empty, the
  pitch-shift stage is skipped (no pitch-shift call is made, so no pitch-shift error can
  occur) and the run proceeds to encode: \<^verbatim>\<open>sf.write\<close> is called with the empty sequence
  at 16000 Hz. When that call returns, the empty output file is written and the output
  path returned; when it raises, its error is the outcome of the run.
\<close>

theorem C10_zero_pitch_reaches_encode:
  assumes load: "load_audio env input_path 16000 = (w, Inr audio)"
      and blk: "convert_block env self audio = (w', Inr [])"
  shows "convert env self input_path output_path 0 =
           (case sf_write env output_path [] 16000 of
              None \<Rightarrow>
                (Print (''Converting: '' @ input_path @ '' -> '' @ output_path) # w @ w'
                   @ [Sf_write output_path 16000, File_written output_path [] 16000,
                      Print (''Saved: '' @ output_path)],
                 Inr output_path)
            | Some e \<Rightarrow>
                (Print (''Converting: '' @ input_path @ '' -> '' @ output_path) # w @ w'
                   @ [Sf_write output_path 16000],
                 Inl e))
         \<and> filter is_pitch_shift (fst (convert env self input_path output_path 0)) = []"
proof -
  have cv: "convert env self input_path output_path 0 =
           (Print (''Converting: '' @ input_path @ '' -> '' @ output_path) # w @ w'
              @ fst (save_stage env output_path []), snd (save_stage env output_path []))"
    using convert_after_block [OF load blk, of output_path 0]
    by (simp add: shift_and_save_zero)
  have w: "filter is_pitch_shift w = []"
    using load_audio_effects [of env input_path 16000] load by auto
  have sub: "set w' \<subseteq> insert (Tensor_to (device self)) (insert Net_infer (range Print))"
    using convert_block_effects [of env self audio] blk by simp
  have w': "filter is_pitch_shift w' = []"
    by (rule filter_none [OF sub]) auto
  show ?thesis
    using w w' by (simp add: cv save_stage_outcome split: option.splits)
qed

theorem C10_zero_pitch_reaches_encode_witness:
  "load_audio demo_env ''empty.wav'' 16000 = ([Librosa_load ''empty.wav''], Inr [])
   \<and> convert_block demo_env (rvc_of (Dict []) ''cpu'') []
       = ([Tensor_to ''cpu'', Print passthrough_warning], Inr [])
   \<and> convert demo_env (rvc_of (Dict []) ''cpu'') ''empty.wav'' ''out.wav'' 0
       = ([Print ''Converting: empty.wav -> out.wav'', Librosa_load ''empty.wav'',
           Tensor_to ''cpu'', Print passthrough_warning, Sf_write ''out.wav'' 16000,
           File_written ''out.wav'' [] 16000, Print ''Saved: out.wav''],
          Inr ''out.wav'')
   \<and> filter is_pitch_shift
         (fst (convert demo_env (rvc_of (Dict []) ''cpu'') ''empty.wav'' ''out.wav'' 0)) = []"
proof -
  have load: "load_audio demo_env ''empty.wav'' 16000 = ([Librosa_load ''empty.wav''], Inr [])"
    by (simp add: load_audio_def seq_def outcome_def ret_def demo_env_def)
  have blk: "convert_block demo_env (rvc_of (Dict []) ''cpu'') []
       = ([Tensor_to ''cpu'', Print passthrough_warning], Inr [])"
    by (simp add: run_defs demo_defs)
  have enc: "sf_write demo_env ''out.wav'' [] 16000 = None"
    by (simp add: demo_env_def)
  note t = C10_zero_pitch_reaches_encode [OF load blk, of "''out.wav''",
             unfolded enc option.case append.simps]
  show ?thesis
    using load blk t by blast
qed

section \<open>The index path\<close>

lemma convert_index_path:
  "convert env (self\<lparr>index_path := i\<rparr>) input_path output_path p
     = convert env self input_path output_path p"
  by (simp add: convert_def convert_block_def)

lemma init_index_path:
  "init env m i d =
     (fst (init env m None d),
      case snd (init env m None d) of Inl e \<Rightarrow> Inl e | Inr self \<Rightarrow> Inr (self\<lparr>index_path := i\<rparr>))"
  by (cases "torch_load env m d"; cases "extract_network (projr (torch_load env m d))")
     (simp_all add: init_def seq_def emit_def outcome_def ret_def)

lemma pipeline_index_path:
  "seq (init env m i d) (\<lambda>rvc. convert env rvc input_path output_path p)
     = seq (init env m None d) (\<lambda>rvc. convert env rvc input_path output_path p)"
  by (subst init_index_path [of env m i d])
     (cases "init env m None d"; cases "snd (init env m None d)";
      simp add: seq_def convert_index_path)

text \<open>
  C9: two runs that differ only in the index path (present or absent, any value) produce
  the same effects, in the same order, and the same outcome: the same lines printed, the
  same library calls, the same files with the same samples, the same result. This holds
  for construction followed by \<^verbatim>\<open>convert\<close>, and for \<^verbatim>\<open>main\<close>.
\<close>

theorem C9_index_path_noninterference:
  "seq (init env m i1 d) (\<lambda>rvc. convert env rvc input_path output_path p)
     = seq (init env m i2 d) (\<lambda>rvc. convert env rvc input_path output_path p)
   \<and> main env (a\<lparr>arg_index := i1\<rparr>) = main env (a\<lparr>arg_index := i2\<rparr>)"
proof -
  have p: "seq (init env m i d) (\<lambda>rvc. seq (convert env rvc input_path output_path p) k)
     = seq (init env m None d) (\<lambda>rvc. seq (convert env rvc input_path output_path p) k)"
    for m i d input_path output_path p and k :: "string \<Rightarrow> unit action"
    by (subst init_index_path [of env m i d])
       (cases "init env m None d"; cases "snd (init env m None d)";
        simp add: seq_def convert_index_path)
  show ?thesis
    by (simp add: main_def pipeline_index_path [of env m i1] pipeline_index_path [of env m i2]
                  p [of _ i1] p [of _ i2])
qed

section \<open>The sample rate\<close>





end
